theory Spec2Isabelle
  imports Complex_Main
begin

section \<open>JavaScript numbers\<close>

text \<open>
  The component computes with JavaScript numbers.  A finite number is modelled by the real
  it denotes (rounding and signed zeros are left out); the three special values that a
  division by zero or an undefined operation produces are kept, because \<open>getMaxScale\<close> and
  \<open>getOrignalImageSizeScale\<close> divide by \<open>innerHeight - BLEEDING\<close>, which can be zero.
  Pointer coordinates, window sizes, natural image sizes and bounding boxes are delivered
  by the browser as finite numbers and are plain reals.
\<close>

datatype jsnum = Num real | PInf | NInf | NaN

fun isFinite :: "jsnum \<Rightarrow> bool" where
  "isFinite (Num a) = True"
| "isFinite PInf = False"
| "isFinite NInf = False"
| "isFinite NaN = False"

text \<open>\<open>a < b\<close>: every comparison with \<open>NaN\<close> is false.\<close>

fun jlt :: "jsnum \<Rightarrow> jsnum \<Rightarrow> bool" where
  "jlt (Num a) (Num b) = (a < b)"
| "jlt (Num a) PInf = True"
| "jlt (Num a) NInf = False"
| "jlt (Num a) NaN = False"
| "jlt PInf b = False"
| "jlt NInf (Num b) = True"
| "jlt NInf PInf = True"
| "jlt NInf NInf = False"
| "jlt NInf NaN = False"
| "jlt NaN b = False"

definition jgt :: "jsnum \<Rightarrow> jsnum \<Rightarrow> bool" where
  "jgt a b = jlt b a"

text \<open>\<open>a === b\<close> on numbers: \<open>NaN\<close> is not equal to itself.\<close>

definition jeq :: "jsnum \<Rightarrow> jsnum \<Rightarrow> bool" where
  "jeq a b = (a \<noteq> NaN \<and> a = b)"

text \<open>\<open>Math.max\<close> and \<open>Math.min\<close> return \<open>NaN\<close> as soon as one argument is \<open>NaN\<close>.\<close>

definition jmax :: "jsnum \<Rightarrow> jsnum \<Rightarrow> jsnum" where
  "jmax a b = (if a = NaN \<or> b = NaN then NaN else if jlt a b then b else a)"

definition jmin :: "jsnum \<Rightarrow> jsnum \<Rightarrow> jsnum" where
  "jmin a b = (if a = NaN \<or> b = NaN then NaN else if jlt b a then b else a)"

fun jneg :: "jsnum \<Rightarrow> jsnum" where
  "jneg (Num a) = Num (- a)"
| "jneg PInf = NInf"
| "jneg NInf = PInf"
| "jneg NaN = NaN"

fun jadd :: "jsnum \<Rightarrow> jsnum \<Rightarrow> jsnum" where
  "jadd (Num a) (Num b) = Num (a + b)"
| "jadd (Num a) PInf = PInf"
| "jadd (Num a) NInf = NInf"
| "jadd (Num a) NaN = NaN"
| "jadd PInf (Num b) = PInf"
| "jadd PInf PInf = PInf"
| "jadd PInf NInf = NaN"
| "jadd PInf NaN = NaN"
| "jadd NInf (Num b) = NInf"
| "jadd NInf PInf = NaN"
| "jadd NInf NInf = NInf"
| "jadd NInf NaN = NaN"
| "jadd NaN b = NaN"

definition jsub :: "jsnum \<Rightarrow> jsnum \<Rightarrow> jsnum" where
  "jsub a b = jadd a (jneg b)"

fun jmul :: "jsnum \<Rightarrow> jsnum \<Rightarrow> jsnum" where
  "jmul (Num a) (Num b) = Num (a * b)"
| "jmul (Num a) PInf = (if a = 0 then NaN else if 0 < a then PInf else NInf)"
| "jmul (Num a) NInf = (if a = 0 then NaN else if 0 < a then NInf else PInf)"
| "jmul (Num a) NaN = NaN"
| "jmul PInf (Num b) = (if b = 0 then NaN else if 0 < b then PInf else NInf)"
| "jmul PInf PInf = PInf"
| "jmul PInf NInf = NInf"
| "jmul PInf NaN = NaN"
| "jmul NInf (Num b) = (if b = 0 then NaN else if 0 < b then NInf else PInf)"
| "jmul NInf PInf = NInf"
| "jmul NInf NInf = PInf"
| "jmul NInf NaN = NaN"
| "jmul NaN b = NaN"

text \<open>
  \<open>a / b\<close>: a finite nonzero number divided by zero is an infinity, \<open>0 / 0\<close> is \<open>NaN\<close>;
  nothing is raised.
\<close>

fun jdiv :: "jsnum \<Rightarrow> jsnum \<Rightarrow> jsnum" where
  "jdiv (Num a) (Num b) =
     (if b = 0 then (if a = 0 then NaN else if 0 < a then PInf else NInf)
      else Num (a / b))"
| "jdiv (Num a) PInf = Num 0"
| "jdiv (Num a) NInf = Num 0"
| "jdiv (Num a) NaN = NaN"
| "jdiv PInf (Num b) = (if 0 \<le> b then PInf else NInf)"
| "jdiv PInf PInf = NaN"
| "jdiv PInf NInf = NaN"
| "jdiv PInf NaN = NaN"
| "jdiv NInf (Num b) = (if 0 \<le> b then NInf else PInf)"
| "jdiv NInf PInf = NaN"
| "jdiv NInf NInf = NaN"
| "jdiv NInf NaN = NaN"
| "jdiv NaN b = NaN"

text \<open>\<open>Math.log\<close> and \<open>Math.ceil\<close>.\<close>

fun jlog :: "jsnum \<Rightarrow> jsnum" where
  "jlog (Num a) = (if a < 0 then NaN else if a = 0 then NInf else Num (ln a))"
| "jlog PInf = PInf"
| "jlog NInf = NaN"
| "jlog NaN = NaN"

fun jceil :: "jsnum \<Rightarrow> jsnum" where
  "jceil (Num a) = Num (of_int \<lceil>a\<rceil>)"
| "jceil PInf = PInf"
| "jceil NInf = NInf"
| "jceil NaN = NaN"

section \<open>Constants and geometry\<close>

definition BLEEDING :: real where
  "BLEEDING = 32"

definition scaleRadix :: real where
  "scaleRadix = 1.5"

text \<open>
  \<open>scaleRadix ** e\<close>.  The base is the constant 1.5, so an infinite exponent gives
  \<open>Infinity\<close> or \<open>0\<close>.  On an integral exponent the power is written with \<open>powi\<close>, which
  computes; it is the same number as \<open>scaleRadix powr e\<close>.
\<close>

fun radixPow :: "jsnum \<Rightarrow> jsnum" where
  "radixPow (Num e) =
     Num (if e = of_int \<lfloor>e\<rfloor> then scaleRadix powi \<lfloor>e\<rfloor> else scaleRadix powr e)"
| "radixPow PInf = PInf"
| "radixPow NInf = Num 0"
| "radixPow NaN = NaN"

text \<open>The \<open>DOMRect\<close> returned by \<open>getBoundingClientRect\<close>.\<close>

record DOMRect =
  left :: real
  top' :: real
  right :: real
  bottom :: real
  width :: real
  height :: real

text \<open>
  \<open>MoveStrategy\<close> is declared in \<open>./interface\<close>; its fields are the ones
  \<open>getMoveStrategy\<close> returns.
\<close>

datatype verticalDirection = verticalTop | verticalBottom
datatype horizontalDirection = horizontalLeft | horizontalRight

record MoveStrategy =
  moveVerticalDirection :: verticalDirection
  moveHorizontalDirection :: horizontalDirection
  deltaHorizontal :: real
  deltaVertical :: real

text \<open>The object \<open>{ offsetX, offsetY }\<close> that \<open>getDerivedOffset\<close> returns.\<close>

record derivedOffset =
  offsetX :: real
  offsetY :: real

section \<open>The boundary clamp\<close>

definition getMoveStrategy :: "real \<Rightarrow> real \<Rightarrow> real \<Rightarrow> real \<Rightarrow> MoveStrategy" where
  "getMoveStrategy mouseUpClientX mouseUpClientY mouseDownClientX mouseDownClientY =
     (let dH = mouseDownClientX - mouseUpClientX;
          dV = mouseDownClientY - mouseUpClientY
      in \<lparr> moveVerticalDirection = (if 0 < dV then verticalTop else verticalBottom),
           moveHorizontalDirection = (if 0 < dH then horizontalLeft else horizontalRight),
           deltaHorizontal = dH,
           deltaVertical = dV \<rparr>)"

text \<open>
  \<open>getDerivedOffset\<close> reads the preview element, the window and the closure variables
  \<open>startOffsetX\<close>, \<open>startOffsetY\<close>; here they are arguments.  \<open>pbox = None\<close> is the case
  of a preview reference that is \<open>null\<close>.  With no move strategy the destructured
  directions are \<open>undefined\<close> (and so different from \<open>horizontalRight\<close> and
  \<open>verticalBottom\<close>) and the deltas default to 0.  The source computes its two local
  variables \<open>nextOffsetX\<close> and \<open>nextOffsetY\<close> by two independent chains of tests; each
  chain is a function here.
\<close>

definition nextOffsetX ::
  "DOMRect \<Rightarrow> real \<Rightarrow> real \<Rightarrow> MoveStrategy option \<Rightarrow> real" where
  "nextOffsetX pbox innerWidth startOffsetX moveStrategy =
     (if width pbox \<le> innerWidth then 0
      else if 0 < left pbox then (width pbox - innerWidth) / 2
      else if right pbox < innerWidth then - (width pbox - innerWidth) / 2
      else if map_option moveHorizontalDirection moveStrategy = Some horizontalRight
      then min ((width pbox - innerWidth) / 2)
               (startOffsetX - (case moveStrategy of None \<Rightarrow> 0 | Some m \<Rightarrow> deltaHorizontal m))
      else max (- ((width pbox - innerWidth) / 2))
               (startOffsetX - (case moveStrategy of None \<Rightarrow> 0 | Some m \<Rightarrow> deltaHorizontal m)))"

definition nextOffsetY ::
  "DOMRect \<Rightarrow> real \<Rightarrow> real \<Rightarrow> MoveStrategy option \<Rightarrow> real" where
  "nextOffsetY pbox innerHeight startOffsetY moveStrategy =
     (if height pbox \<le> innerHeight then 0
      else if 0 < top' pbox then (height pbox - innerHeight) / 2
      else if bottom pbox < innerHeight then - (height pbox - innerHeight) / 2
      else if map_option moveVerticalDirection moveStrategy = Some verticalBottom
      then min ((height pbox - innerHeight) / 2)
               (startOffsetY - (case moveStrategy of None \<Rightarrow> 0 | Some m \<Rightarrow> deltaVertical m))
      else max (- ((height pbox - innerHeight) / 2))
               (startOffsetY - (case moveStrategy of None \<Rightarrow> 0 | Some m \<Rightarrow> deltaVertical m)))"

definition getDerivedOffset ::
  "DOMRect option \<Rightarrow> real \<Rightarrow> real \<Rightarrow> real \<Rightarrow> real \<Rightarrow> MoveStrategy option \<Rightarrow> derivedOffset" where
  "getDerivedOffset pbox innerWidth innerHeight startOffsetX startOffsetY moveStrategy =
     (case pbox of
        None \<Rightarrow> \<lparr> offsetX = 0, offsetY = 0 \<rparr>
      | Some b \<Rightarrow>
          \<lparr> offsetX = nextOffsetX b innerWidth startOffsetX moveStrategy,
            offsetY = nextOffsetY b innerHeight startOffsetY moveStrategy \<rparr>)"

section \<open>The component state\<close>

text \<open>
  What \<open>derivePreviewStyle\<close> writes into the preview element's \<open>cssText\<close>: the transform,
  the cursor and whether transitions are switched off.  The style string that the image
  context contributes is presentation and is left out.
\<close>

record style =
  translateX :: real
  translateY :: real
  rotateDeg :: int
  scaleFactor :: jsnum
  cursorGrabbing :: bool
  transitionNone :: bool

text \<open>
  The preview image element as far as the component reads it.  Its bounding box is supplied
  by the layout engine from the style currently on the element (\<open>None\<close>: nothing written
  yet); the function is arbitrary.
\<close>

record HTMLImageElement =
  naturalWidth :: real
  naturalHeight :: real
  getBoundingClientRect :: "style option \<Rightarrow> DOMRect"

text \<open>The props that the handlers read; a callback prop is present or absent.\<close>

record ImagePreviewProps =
  "show" :: "bool option"
  onPrev :: bool
  onNext :: bool
  onClose :: bool
  onUpdateShow :: bool
  onUpdateShow' :: bool

record env =
  innerWidth :: real
  innerHeight :: real
  previewRef :: "HTMLImageElement option"
  props :: ImagePreviewProps

text \<open>Calls that leave the component, in the order they are made.\<close>

datatype call =
  CallOnPrev | CallOnNext | CallOnClose | CallOnUpdateShow bool | CallOnUpdateShow' bool
  | PreventDefault

text \<open>
  The closure variables of \<open>setup\<close>, the two refs it writes, the style last written to the
  preview element, whether the document listeners for \<open>mousemove\<close>/\<open>mouseup\<close> are
  registered, whether \<open>beforeNextFrameOnce\<close> has a redraw pending, and the log of calls.
  The handlers that the injected image context passes through (\<open>onMousedown\<close>,
  \<open>onDblclick\<close>, \<open>onDragstart\<close>) belong to the host and do not touch this state; they,
  the theme, the tooltips, the download action and the watcher that registers the
  \<open>keydown\<close> listener are not modelled.
\<close>

record state =
  startX :: real
  startY :: real
  offsetX :: real
  offsetY :: real
  startOffsetX :: real
  startOffsetY :: real
  mouseDownClientX :: real
  mouseDownClientY :: real
  dragging :: bool
  scaleExp :: jsnum
  scale :: jsnum
  rotate' :: int
  cssText :: "style option"
  uncontrolledShow :: bool
  displayed :: bool
  mouseListeners :: bool
  framePending :: bool
  calls :: "call list"

definition initial :: "bool \<Rightarrow> state" where
  "initial defaultShow =
     \<lparr> startX = 0, startY = 0, offsetX = 0, offsetY = 0, startOffsetX = 0, startOffsetY = 0,
       mouseDownClientX = 0, mouseDownClientY = 0, dragging = False,
       scaleExp = Num 0, scale = Num 1, rotate' = 0, cssText = None,
       uncontrolledShow = defaultShow, displayed = False, mouseListeners = False,
       framePending = False, calls = [] \<rparr>"

text \<open>An optional call \<open>f?.()\<close>: made when the prop is present.\<close>

definition invoke :: "bool \<Rightarrow> call \<Rightarrow> state \<Rightarrow> state" where
  "invoke present c s = (if present then s\<lparr> calls := calls s @ [c] \<rparr> else s)"

definition derivePreviewStyle :: "env \<Rightarrow> bool \<Rightarrow> state \<Rightarrow> state" where
  "derivePreviewStyle e transition s =
     (case previewRef e of
        None \<Rightarrow> s
      | Some p \<Rightarrow>
          s\<lparr> cssText := Some
               \<lparr> translateX = offsetX s, translateY = offsetY s, rotateDeg = rotate' s,
                 scaleFactor = scale s, cursorGrabbing = dragging s,
                 transitionNone = (if dragging s then True else \<not> transition) \<rparr> \<rparr>)"

text \<open>\<open>preview.getBoundingClientRect()\<close>, or nothing when the reference is \<open>null\<close>.\<close>

definition pbox :: "env \<Rightarrow> state \<Rightarrow> DOMRect option" where
  "pbox e s = map_option (\<lambda>p. getBoundingClientRect p (cssText s)) (previewRef e)"

section \<open>Dragging\<close>

definition handleMouseMove :: "real \<Rightarrow> real \<Rightarrow> state \<Rightarrow> state" where
  "handleMouseMove clientX clientY s =
     s\<lparr> offsetX := clientX - startX s, offsetY := clientY - startY s, framePending := True \<rparr>"

text \<open>The next animation frame runs the pending \<open>derivePreviewStyle\<close>, once.\<close>

definition nextFrame :: "env \<Rightarrow> state \<Rightarrow> state" where
  "nextFrame e s =
     (if framePending s then derivePreviewStyle e True (s\<lparr> framePending := False \<rparr>) else s)"

definition handleMouseUp :: "env \<Rightarrow> real \<Rightarrow> real \<Rightarrow> state \<Rightarrow> state" where
  "handleMouseUp e mouseUpClientX mouseUpClientY s =
     (let s1 = s\<lparr> mouseListeners := False, dragging := False \<rparr>;
          moveStrategy = getMoveStrategy mouseUpClientX mouseUpClientY
                           (mouseDownClientX s1) (mouseDownClientY s1);
          off = getDerivedOffset (pbox e s1) (innerWidth e) (innerHeight e)
                  (startOffsetX s1) (startOffsetY s1) (Some moveStrategy)
      in derivePreviewStyle e True
           (s1\<lparr> offsetX := derivedOffset.offsetX off, offsetY := derivedOffset.offsetY off \<rparr>))"

definition handlePreviewMousedown :: "env \<Rightarrow> int \<Rightarrow> real \<Rightarrow> real \<Rightarrow> state \<Rightarrow> state" where
  "handlePreviewMousedown e button clientX clientY s =
     (if button \<noteq> 0 then s
      else (derivePreviewStyle e True
              (s\<lparr> dragging := True,
                  startX := clientX - offsetX s, startY := clientY - offsetY s,
                  startOffsetX := offsetX s, startOffsetY := offsetY s,
                  mouseDownClientX := clientX, mouseDownClientY := clientY \<rparr>))
           \<lparr> mouseListeners := True \<rparr>)"

section \<open>Scale and rotation\<close>

definition getMaxScale :: "env \<Rightarrow> jsnum" where
  "getMaxScale e =
     (case previewRef e of
        None \<Rightarrow> Num 1
      | Some p \<Rightarrow>
          (let heightMaxScale =
                 jmax (Num 1) (jdiv (Num (naturalHeight p)) (Num (innerHeight e - BLEEDING)));
               widthMaxScale =
                 jmax (Num 1) (jdiv (Num (naturalWidth p)) (Num (innerWidth e - BLEEDING)))
           in jmax (jmax (Num 3) (jmul heightMaxScale (Num 2))) (jmul widthMaxScale (Num 2))))"

definition getOrignalImageSizeScale :: "env \<Rightarrow> jsnum" where
  "getOrignalImageSizeScale e =
     (case previewRef e of
        None \<Rightarrow> Num 1
      | Some p \<Rightarrow>
          (let heightScale = jdiv (Num (naturalHeight p)) (Num (innerHeight e - BLEEDING));
               widthScale = jdiv (Num (naturalWidth p)) (Num (innerWidth e - BLEEDING))
           in if jlt heightScale (Num 1) \<and> jlt widthScale (Num 1) then Num 1
              else jmax heightScale widthScale))"

definition handlePreviewDblclick :: "env \<Rightarrow> state \<Rightarrow> state" where
  "handlePreviewDblclick e s =
     (let originalImageSizeScale = getOrignalImageSizeScale e
      in derivePreviewStyle e True
           (s\<lparr> scale := (if jeq (scale s) originalImageSizeScale then Num 1
                          else originalImageSizeScale) \<rparr>))"

definition resetScale :: "state \<Rightarrow> state" where
  "resetScale s = s\<lparr> scale := Num 1, scaleExp := Num 0 \<rparr>"

definition handleSwitchPrev :: "env \<Rightarrow> state \<Rightarrow> state" where
  "handleSwitchPrev e s = invoke (onPrev (props e)) CallOnPrev ((resetScale s)\<lparr> rotate' := 0 \<rparr>)"

definition handleSwitchNext :: "env \<Rightarrow> state \<Rightarrow> state" where
  "handleSwitchNext e s = invoke (onNext (props e)) CallOnNext ((resetScale s)\<lparr> rotate' := 0 \<rparr>)"

definition rotateCounterclockwise :: "env \<Rightarrow> state \<Rightarrow> state" where
  "rotateCounterclockwise e s = derivePreviewStyle e True (s\<lparr> rotate' := rotate' s - 90 \<rparr>)"

definition rotateClockwise :: "env \<Rightarrow> state \<Rightarrow> state" where
  "rotateClockwise e s = derivePreviewStyle e True (s\<lparr> rotate' := rotate' s + 90 \<rparr>)"

definition zoomIn :: "env \<Rightarrow> state \<Rightarrow> state" where
  "zoomIn e s =
     (let maxScale = getMaxScale e
      in if jlt (scale s) maxScale
         then (let s1 = s\<lparr> scaleExp := jadd (scaleExp s) (Num 1) \<rparr>
               in derivePreviewStyle e True
                    (s1\<lparr> scale := jmin maxScale (radixPow (scaleExp s1)) \<rparr>))
         else s)"

definition zoomOut :: "env \<Rightarrow> state \<Rightarrow> state" where
  "zoomOut e s =
     (if jgt (scale s) (Num 0.5)
      then (let originalScale = scale s;
                s1 = s\<lparr> scaleExp := jsub (scaleExp s) (Num 1) \<rparr>;
                s2 = s1\<lparr> scale := jmax (Num 0.5) (radixPow (scaleExp s1)) \<rparr>;
                diff = jsub originalScale (scale s2);
                s3 = derivePreviewStyle e False s2;
                off = getDerivedOffset (pbox e s3) (innerWidth e) (innerHeight e)
                        (startOffsetX s3) (startOffsetY s3) None;
                s4 = derivePreviewStyle e False (s3\<lparr> scale := jadd (scale s3) diff \<rparr>);
                s5 = s4\<lparr> scale := jsub (scale s4) diff \<rparr>
            in derivePreviewStyle e True
                 (s5\<lparr> offsetX := derivedOffset.offsetX off,
                      offsetY := derivedOffset.offsetY off \<rparr>))
      else s)"

definition resizeToOrignalImageSize :: "env \<Rightarrow> state \<Rightarrow> state" where
  "resizeToOrignalImageSize e s =
     (let s1 = s\<lparr> scale := getOrignalImageSizeScale e \<rparr>
      in derivePreviewStyle e True
           (s1\<lparr> scaleExp := jceil (jdiv (jlog (scale s1)) (jlog (Num scaleRadix))),
                offsetX := 0, offsetY := 0 \<rparr>))"

section \<open>Showing, closing and the keyboard\<close>

text \<open>\<open>useMergedState\<close>: the controlled \<open>show\<close> prop when it is given, else the own ref.\<close>

definition mergedShow :: "env \<Rightarrow> state \<Rightarrow> bool" where
  "mergedShow e s = (case show (props e) of Some v \<Rightarrow> v | None \<Rightarrow> uncontrolledShow s)"

definition doUpdateShow :: "env \<Rightarrow> bool \<Rightarrow> state \<Rightarrow> state" where
  "doUpdateShow e v s =
     (invoke (onUpdateShow' (props e)) (CallOnUpdateShow' v)
        (invoke (onUpdateShow (props e)) (CallOnUpdateShow v) s))
     \<lparr> uncontrolledShow := v, displayed := True \<rparr>"

definition close :: "env \<Rightarrow> state \<Rightarrow> state" where
  "close e s =
     (if mergedShow e s
      then (doUpdateShow e False (invoke (onClose (props e)) CallOnClose s))
             \<lparr> uncontrolledShow := False \<rparr>
      else s)"

definition handleAfterLeave :: "state \<Rightarrow> state" where
  "handleAfterLeave s = (resetScale s)\<lparr> rotate' := 0, displayed := False \<rparr>"

datatype key = Space | ArrowLeft | ArrowRight | ArrowUp | ArrowDown | Escape | OtherKey

fun handleKeydown :: "env \<Rightarrow> key \<Rightarrow> state \<Rightarrow> state" where
  "handleKeydown e Space s = invoke True PreventDefault s"
| "handleKeydown e ArrowLeft s = invoke (onPrev (props e)) CallOnPrev s"
| "handleKeydown e ArrowRight s = invoke (onNext (props e)) CallOnNext s"
| "handleKeydown e ArrowUp s = zoomIn e (invoke True PreventDefault s)"
| "handleKeydown e ArrowDown s = zoomOut e (invoke True PreventDefault s)"
| "handleKeydown e Escape s = close e s"
| "handleKeydown e OtherKey s = s"

section \<open>Drag sessions, re-measurement and the scenario of the specification\<close>

text \<open>
  What happens between the \<open>mousedown\<close> and the \<open>mouseup\<close> of a drag: \<open>mousemove\<close> events,
  delivered to \<open>handleMouseMove\<close>, and animation frames.
\<close>

datatype dragEvent = MouseMove real real | AnimationFrame

fun dragStep :: "env \<Rightarrow> dragEvent \<Rightarrow> state \<Rightarrow> state" where
  "dragStep e (MouseMove clientX clientY) s = handleMouseMove clientX clientY s"
| "dragStep e AnimationFrame s = nextFrame e s"

fun dragSteps :: "env \<Rightarrow> dragEvent list \<Rightarrow> state \<Rightarrow> state" where
  "dragSteps e [] s = s"
| "dragSteps e (ev # evs) s = dragSteps e evs (dragStep e ev s)"

text \<open>Where the pointer is after a list of events, when it was at \<open>pos\<close> before.\<close>

fun pointerAfter :: "real \<times> real \<Rightarrow> dragEvent list \<Rightarrow> real \<times> real" where
  "pointerAfter pos [] = pos"
| "pointerAfter pos (MouseMove clientX clientY # evs) = pointerAfter (clientX, clientY) evs"
| "pointerAfter pos (AnimationFrame # evs) = pointerAfter pos evs"

text \<open>
  The layout engine is outside the component.  Measuring the box again after the offset
  has changed by \<open>(dx, dy)\<close>, with scale and rotation as they were, gives the box moved by
  \<open>(dx, dy)\<close>.
\<close>

definition translateRect :: "real \<Rightarrow> real \<Rightarrow> DOMRect \<Rightarrow> DOMRect" where
  "translateRect dx dy b =
     b\<lparr> left := left b + dx, right := right b + dx,
        top' := top' b + dy, bottom := bottom b + dy \<rparr>"

text \<open>
  The clamp has a fixed point at its own result.  The box \<open>b\<close> was measured at the offset
  \<open>(ox, oy)\<close> and the clamp called with start offsets \<open>sx\<close>, \<open>sy\<close> and hint \<open>ms\<close>; the
  corrected offset is committed and the box measured again.  The second application takes
  the committed offset as its offset: the hint is the same, and the start offsets are such
  that start offset minus delta is the committed offset.
\<close>

definition clampFixedPoint ::
  "DOMRect \<Rightarrow> real \<Rightarrow> real \<Rightarrow> real \<Rightarrow> real \<Rightarrow> MoveStrategy option \<Rightarrow> real \<Rightarrow> real \<Rightarrow> bool"
  where
  "clampFixedPoint b iw ih sx sy ms ox oy =
     (let c = getDerivedOffset (Some b) iw ih sx sy ms;
          b' = translateRect (derivedOffset.offsetX c - ox) (derivedOffset.offsetY c - oy) b
      in getDerivedOffset (Some b') iw ih
           (derivedOffset.offsetX c + (case ms of None \<Rightarrow> 0 | Some m \<Rightarrow> deltaHorizontal m))
           (derivedOffset.offsetY c + (case ms of None \<Rightarrow> 0 | Some m \<Rightarrow> deltaVertical m))
           ms = c)"

text \<open>
  A layout engine for an unrotated image that is 1200 by 800 at scale 1, centred in a
  window of 1000 by 800, scaled about its centre and moved by the translation of the
  style on the element.
\<close>

definition centredRect :: "style option \<Rightarrow> DOMRect" where
  "centredRect st =
     (let k = (case st of
                 None \<Rightarrow> 1
               | Some t \<Rightarrow> (case scaleFactor t of Num a \<Rightarrow> a | _ \<Rightarrow> 1));
          tx = (case st of None \<Rightarrow> 0 | Some t \<Rightarrow> translateX t);
          ty = (case st of None \<Rightarrow> 0 | Some t \<Rightarrow> translateY t)
      in \<lparr> left = (1000 - 1200 * k) / 2 + tx, top' = (800 - 800 * k) / 2 + ty,
           right = (1000 + 1200 * k) / 2 + tx, bottom = (800 + 800 * k) / 2 + ty,
           width = 1200 * k, height = 800 * k \<rparr>)"

definition centredEnv :: env where
  "centredEnv =
     \<lparr> innerWidth = 1000, innerHeight = 800,
       previewRef = Some
         \<lparr> naturalWidth = 2400, naturalHeight = 1600, getBoundingClientRect = centredRect \<rparr>,
       props = \<lparr> show = Some True, onPrev = True, onNext = True, onClose = False,
                 onUpdateShow = False, onUpdateShow' = False \<rparr> \<rparr>"

text \<open>
  Two drags at scale 1.5 in that window: after \<open>zoomIn\<close>, the image is dragged 300 to the
  right and released, then dragged back by 300 and released.  The offset is 0 again; the
  start offset is the 300 at which the second drag began.
\<close>

definition staleDragState :: state where
  "staleDragState =
     handleMouseUp centredEnv 500 400
       (dragSteps centredEnv [MouseMove 500 400, AnimationFrame]
         (handlePreviewMousedown centredEnv 0 800 400
           (handleMouseUp centredEnv 800 400
             (dragSteps centredEnv [MouseMove 800 400, AnimationFrame]
               (handlePreviewMousedown centredEnv 0 500 400
                 (zoomIn centredEnv (initial False)))))))"

text \<open>
  The scenario of the specification: a window of 1000 by 800 and an image of natural size
  2000 by 1600, with both switch callbacks given.  The box the layout engine reports does
  not matter for the scale; it is fixed to one that fits the window.
\<close>

definition scenarioEnv :: "real \<Rightarrow> real \<Rightarrow> env" where
  "scenarioEnv w h =
     \<lparr> innerWidth = w, innerHeight = h,
       previewRef = Some
         \<lparr> naturalWidth = 2000, naturalHeight = 1600,
           getBoundingClientRect =
             (\<lambda>st. \<lparr> left = 100, top' = 80, right = 900, bottom = 720,
                      width = 800, height = 640 \<rparr>) \<rparr>,
       props = \<lparr> show = Some True, onPrev = True, onNext = True, onClose = False,
                 onUpdateShow = False, onUpdateShow' = False \<rparr> \<rparr>"

text \<open>
  The state in which \<open>zoomOut\<close> measures the box: exponent decremented, scale at the
  floored candidate, written to the element without transition.
\<close>

definition zoomOutCandidate :: "env \<Rightarrow> state \<Rightarrow> state" where
  "zoomOutCandidate e s =
     (let s1 = s\<lparr> scaleExp := jsub (scaleExp s) (Num 1) \<rparr>
      in derivePreviewStyle e False
           (s1\<lparr> scale := jmax (Num 0.5) (radixPow (scaleExp s1)) \<rparr>))"

text \<open>A window of 1000 by 800 in which the layout engine reports a box of 1200 by 900.\<close>

definition wideBoxEnv :: env where
  "wideBoxEnv =
     \<lparr> innerWidth = 1000, innerHeight = 800,
       previewRef = Some
         \<lparr> naturalWidth = 2000, naturalHeight = 1600,
           getBoundingClientRect =
             (\<lambda>st. \<lparr> left = -100, top' = -50, right = 1100, bottom = 850,
                      width = 1200, height = 900 \<rparr>) \<rparr>,
       props = \<lparr> show = Some True, onPrev = True, onNext = True, onClose = False,
                 onUpdateShow = False, onUpdateShow' = False \<rparr> \<rparr>"

section \<open>The clamp, branch by branch\<close>

text \<open>
  C1.  For every bounding box, on each axis: when the box is not larger than the viewport
  the corrected offset is 0, whatever the start offset and the direction hint; otherwise,
  when the left (top) edge is inside the viewport, it is half the overflow; otherwise, when
  the right (bottom) edge is inside the viewport, it is minus half the overflow.
\<close>

theorem getDerivedOffset_gap_branches:
  "(let r = getDerivedOffset (Some b) iw ih sx sy ms in
      (width b \<le> iw \<longrightarrow> derivedOffset.offsetX r = 0)
    \<and> (\<not> width b \<le> iw \<and> 0 < left b \<longrightarrow> derivedOffset.offsetX r = (width b - iw) / 2)
    \<and> (\<not> width b \<le> iw \<and> \<not> 0 < left b \<and> right b < iw
          \<longrightarrow> derivedOffset.offsetX r = - (width b - iw) / 2)
    \<and> (height b \<le> ih \<longrightarrow> derivedOffset.offsetY r = 0)
    \<and> (\<not> height b \<le> ih \<and> 0 < top' b \<longrightarrow> derivedOffset.offsetY r = (height b - ih) / 2)
    \<and> (\<not> height b \<le> ih \<and> \<not> 0 < top' b \<and> bottom b < ih
          \<longrightarrow> derivedOffset.offsetY r = - (height b - ih) / 2))"
  by (simp add: getDerivedOffset_def nextOffsetX_def nextOffsetY_def)

theorem getDerivedOffset_gap_branches_witness:
  "getDerivedOffset
      (Some \<lparr> left = 50, top' = -100, right = 1250, bottom = 700, width = 1200, height = 800 \<rparr>)
      1000 800 300 7 None
    = \<lparr> derivedOffset.offsetX = 100, derivedOffset.offsetY = 0 \<rparr>
 \<and> getDerivedOffset
      (Some \<lparr> left = -300, top' = 20, right = 900, bottom = 920, width = 1200, height = 900 \<rparr>)
      1000 800 300 7 (Some (getMoveStrategy 0 0 10 10))
    = \<lparr> derivedOffset.offsetX = -100, derivedOffset.offsetY = 50 \<rparr>
 \<and> derivedOffset.offsetY (getDerivedOffset
      (Some \<lparr> left = -300, top' = -150, right = 900, bottom = 750, width = 1200, height = 900 \<rparr>)
      1000 800 300 7 None) = -50"
  using getDerivedOffset_gap_branches
    [of "\<lparr> left = 50, top' = -100, right = 1250, bottom = 700, width = 1200, height = 800 \<rparr>"
        1000 800 300 7 None]
    getDerivedOffset_gap_branches
    [of "\<lparr> left = -300, top' = 20, right = 900, bottom = 920, width = 1200, height = 900 \<rparr>"
        1000 800 300 7 "Some (getMoveStrategy 0 0 10 10)"]
    getDerivedOffset_gap_branches
    [of "\<lparr> left = -300, top' = -150, right = 900, bottom = 750, width = 1200, height = 900 \<rparr>"
        1000 800 300 7 None]
  by (simp add: Let_def getDerivedOffset_def)

text \<open>
  C2.  When the box spans the viewport on an axis (larger than it, no gap on either side),
  the clamp follows the direction hint: with \<open>horizontalRight\<close> (\<open>verticalBottom\<close>) the
  corrected offset is the minimum of half the overflow and start offset minus delta, with
  \<open>horizontalLeft\<close> (\<open>verticalTop\<close>) the maximum of minus half the overflow and start
  offset minus delta.  For a box of width 1200 with left edge -150 in a viewport of width
  1000, direction \<open>horizontalRight\<close>, start offset -100 and delta 50, the result is -150.
\<close>

theorem getDerivedOffset_spanning:
  "(iw < width b \<and> left b \<le> 0 \<and> iw \<le> right b \<longrightarrow>
      (moveHorizontalDirection m = horizontalRight \<longrightarrow>
         derivedOffset.offsetX (getDerivedOffset (Some b) iw ih sx sy (Some m))
           = min ((width b - iw) / 2) (sx - deltaHorizontal m))
    \<and> (moveHorizontalDirection m = horizontalLeft \<longrightarrow>
         derivedOffset.offsetX (getDerivedOffset (Some b) iw ih sx sy (Some m))
           = max (- ((width b - iw) / 2)) (sx - deltaHorizontal m)))
 \<and> (ih < height b \<and> top' b \<le> 0 \<and> ih \<le> bottom b \<longrightarrow>
      (moveVerticalDirection m = verticalBottom \<longrightarrow>
         derivedOffset.offsetY (getDerivedOffset (Some b) iw ih sx sy (Some m))
           = min ((height b - ih) / 2) (sy - deltaVertical m))
    \<and> (moveVerticalDirection m = verticalTop \<longrightarrow>
         derivedOffset.offsetY (getDerivedOffset (Some b) iw ih sx sy (Some m))
           = max (- ((height b - ih) / 2)) (sy - deltaVertical m)))
 \<and> derivedOffset.offsetX
      (getDerivedOffset (Some (b\<lparr> left := -150, right := 1050, width := 1200 \<rparr>))
         1000 ih (-100) sy
         (Some (m\<lparr> moveHorizontalDirection := horizontalRight, deltaHorizontal := 50 \<rparr>)))
      = -150"
  by (simp add: getDerivedOffset_def nextOffsetX_def nextOffsetY_def)

theorem getDerivedOffset_spanning_witness:
  "getDerivedOffset
     (Some \<lparr> left = -150, top' = -50, right = 1050, bottom = 850,
             width = 1200, height = 900 \<rparr>)
     1000 800 (-100) 10
     (Some \<lparr> moveVerticalDirection = verticalTop, moveHorizontalDirection = horizontalLeft,
             deltaHorizontal = 50, deltaVertical = -20 \<rparr>)
   = \<lparr> derivedOffset.offsetX = -100, derivedOffset.offsetY = 30 \<rparr>
 \<and> getDerivedOffset
     (Some \<lparr> left = -150, top' = -50, right = 1050, bottom = 850,
             width = 1200, height = 900 \<rparr>)
     1000 800 (-100) 10
     (Some \<lparr> moveVerticalDirection = verticalBottom, moveHorizontalDirection = horizontalRight,
             deltaHorizontal = -250, deltaVertical = -20 \<rparr>)
   = \<lparr> derivedOffset.offsetX = 100, derivedOffset.offsetY = 30 \<rparr>"
  using getDerivedOffset_spanning
    [where b = "\<lparr> left = -150, top' = -50, right = 1050, bottom = 850,
                 width = 1200, height = 900 \<rparr>"
       and m = "\<lparr> moveVerticalDirection = verticalTop,
                  moveHorizontalDirection = horizontalLeft,
                  deltaHorizontal = 50, deltaVertical = -20 \<rparr>"
       and iw = 1000 and ih = 800 and sx = "-100" and sy = 10]
    getDerivedOffset_spanning
    [where b = "\<lparr> left = -150, top' = -50, right = 1050, bottom = 850,
                 width = 1200, height = 900 \<rparr>"
       and m = "\<lparr> moveVerticalDirection = verticalBottom,
                  moveHorizontalDirection = horizontalRight,
                  deltaHorizontal = -250, deltaVertical = -20 \<rparr>"
       and iw = 1000 and ih = 800 and sx = "-100" and sy = 10]
  by (simp add: getDerivedOffset_def)

section \<open>The zoom ladder\<close>

lemma derivePreviewStyle_fields [simp]:
  "startX (derivePreviewStyle e t s) = startX s"
  "startY (derivePreviewStyle e t s) = startY s"
  "offsetX (derivePreviewStyle e t s) = offsetX s"
  "offsetY (derivePreviewStyle e t s) = offsetY s"
  "startOffsetX (derivePreviewStyle e t s) = startOffsetX s"
  "startOffsetY (derivePreviewStyle e t s) = startOffsetY s"
  "mouseDownClientX (derivePreviewStyle e t s) = mouseDownClientX s"
  "mouseDownClientY (derivePreviewStyle e t s) = mouseDownClientY s"
  "dragging (derivePreviewStyle e t s) = dragging s"
  "scaleExp (derivePreviewStyle e t s) = scaleExp s"
  "scale (derivePreviewStyle e t s) = scale s"
  "rotate' (derivePreviewStyle e t s) = rotate' s"
  "mouseListeners (derivePreviewStyle e t s) = mouseListeners s"
  "calls (derivePreviewStyle e t s) = calls s"
  by (simp_all add: derivePreviewStyle_def split: option.splits)

lemma radixPow_values:
  "radixPow (Num 1) = Num 1.5"
  "radixPow (Num (-1)) = Num (2/3)"
  "radixPow (Num (-2)) = Num (4/9)"
  "radixPow (Num (-3)) = Num (8/27)"
  by (simp_all add: scaleRadix_def power_int_def floor_minus power2_eq_square power3_eq_cube)

lemma jmin_not_above: "\<not> jlt m (jmin m x)"
  by (cases m; cases x; simp add: jmin_def)

lemma zoomIn_scale:
  "scale (zoomIn e s) = scale s \<or> \<not> jgt (scale (zoomIn e s)) (getMaxScale e)"
  by (simp add: zoomIn_def Let_def jgt_def jmin_not_above)

lemma zoomIn_iter:
  "scale ((zoomIn e ^^ n) s) = scale s \<or> \<not> jgt (scale ((zoomIn e ^^ n) s)) (getMaxScale e)"
proof (induction n)
  case 0
  show ?case by simp
next
  case (Suc n)
  from zoomIn_scale [of e "(zoomIn e ^^ n) s"] Suc show ?case by auto
qed

text \<open>
  \<open>zoomOut\<close> leaves \<open>scale\<close> at \<open>(c + diff) - diff\<close>, where \<open>c\<close> is the floored candidate and
  \<open>diff\<close> the distance from the original scale to it.
\<close>

lemma settle_not_below:
  "\<not> jlt (jsub (jadd (jmax (Num c) x) (jsub orig (jmax (Num c) x)))
                (jsub orig (jmax (Num c) x))) (Num c)"
  by (cases orig; cases x; simp add: jmax_def jsub_def)

lemma zoomOut_scale:
  "scale (zoomOut e s) = scale s \<or> \<not> jlt (scale (zoomOut e s)) (Num 0.5)"
  by (simp add: zoomOut_def Let_def settle_not_below)

lemma zoomOut_iter:
  "scale ((zoomOut e ^^ n) s) = scale s \<or> \<not> jlt (scale ((zoomOut e ^^ n) s)) (Num 0.5)"
proof (induction n)
  case 0
  show ?case by simp
next
  case (Suc n)
  from zoomOut_scale [of e "(zoomOut e ^^ n) s"] Suc show ?case by auto
qed

lemma zoomIn_finite:
  assumes "isFinite (scale s)" and "isFinite (scaleExp s)"
  shows "isFinite (scale (zoomIn e s)) \<and> isFinite (scaleExp (zoomIn e s))"
proof -
  obtain a k where "scale s = Num a" "scaleExp s = Num k"
    using assms by (cases "scale s"; cases "scaleExp s"; simp)
  then show ?thesis
    by (cases "getMaxScale e") (simp_all add: zoomIn_def Let_def jmin_def)
qed

lemma zoomOut_finite:
  assumes "isFinite (scale s)" and "isFinite (scaleExp s)"
  shows "isFinite (scale (zoomOut e s)) \<and> isFinite (scaleExp (zoomOut e s))"
proof -
  obtain a k where "scale s = Num a" "scaleExp s = Num k"
    using assms by (cases "scale s"; cases "scaleExp s"; simp)
  then show ?thesis
    by (simp add: zoomOut_def Let_def jmax_def jsub_def)
qed

lemma zoomIn_iter_finite:
  "isFinite (scale s) \<Longrightarrow> isFinite (scaleExp s) \<Longrightarrow>
     isFinite (scale ((zoomIn e ^^ n) s)) \<and> isFinite (scaleExp ((zoomIn e ^^ n) s))"
  by (induction n) (simp_all add: zoomIn_finite)

lemma zoomOut_iter_finite:
  "isFinite (scale s) \<Longrightarrow> isFinite (scaleExp s) \<Longrightarrow>
     isFinite (scale ((zoomOut e ^^ n) s)) \<and> isFinite (scaleExp ((zoomOut e ^^ n) s))"
  by (induction n) (simp_all add: zoomOut_finite)

text \<open>
  C4.  From any state and for a fixed window and image, \<open>n\<close> calls of \<open>zoomIn\<close> leave a
  scale that is the starting one or is not above \<open>getMaxScale\<close>, and \<open>n\<close> calls of \<open>zoomOut\<close>
  leave a scale that is the starting one or is not below 0.5; \<open>zoomOut\<close> changes nothing at
  all unless the scale is above 0.5.  The comparisons are JavaScript's; from a finite scale
  and exponent both ladders stay finite, so that "not above" is "at most" and "not below" is
  "at least".
\<close>

theorem zoom_ladder_bounds:
  "(scale ((zoomIn e ^^ n) s) = scale s \<or> \<not> jgt (scale ((zoomIn e ^^ n) s)) (getMaxScale e))
 \<and> (scale ((zoomOut e ^^ n) s) = scale s \<or> \<not> jlt (scale ((zoomOut e ^^ n) s)) (Num 0.5))
 \<and> (\<not> jgt (scale s) (Num 0.5) \<longrightarrow> zoomOut e s = s)
 \<and> (isFinite (scale s) \<and> isFinite (scaleExp s) \<longrightarrow>
       isFinite (scale ((zoomIn e ^^ n) s)) \<and> isFinite (scale ((zoomOut e ^^ n) s)))"
  using zoomIn_iter [where e = e and n = n and s = s]
    zoomOut_iter [where e = e and n = n and s = s]
  by (simp add: zoomOut_def zoomIn_iter_finite zoomOut_iter_finite)

theorem zoom_ladder_bounds_witness:
  "scale ((zoomIn (scenarioEnv 1000 800) ^^ 4) (initial False)) = Num (25 / 6)
 \<and> getMaxScale (scenarioEnv 1000 800) = Num (25 / 6)
 \<and> scale ((zoomOut (scenarioEnv 1000 800) ^^ 3) (initial False)) = Num 0.5
 \<and> zoomOut (scenarioEnv 1000 800) ((initial False)\<lparr> scale := Num 0.5 \<rparr>)
      = (initial False)\<lparr> scale := Num 0.5 \<rparr>"
  using zoom_ladder_bounds [where e = "scenarioEnv 1000 800" and n = 4 and s = "initial False"]
    zoom_ladder_bounds [where e = "scenarioEnv 1000 800" and n = 3 and s = "initial False"]
    zoom_ladder_bounds [where e = "scenarioEnv 1000 800" and n = 0
      and s = "(initial False)\<lparr> scale := Num 0.5 \<rparr>"]
  by (simp add: eval_nat_numeral zoomIn_def zoomOut_def Let_def getMaxScale_def scenarioEnv_def
      initial_def BLEEDING_def jmax_def jmin_def jsub_def jgt_def derivePreviewStyle_def pbox_def
      getDerivedOffset_def nextOffsetX_def nextOffsetY_def scaleRadix_def power_int_def floor_minus)

section \<open>The maximum scale and the original-size scale\<close>

lemma jmax_Num [simp]: "jmax (Num a) (Num b) = Num (max a b)"
  by (simp add: jmax_def max_def)

lemma jdiv_Num: "b \<noteq> 0 \<Longrightarrow> jdiv (Num a) (Num b) = Num (a / b)"
  by simp

lemma max_floor_ratio:
  fixes x y :: real
  shows "max (max 3 (max 1 x * 2)) (max 1 y * 2) = max 3 (max (2 * x) (2 * y))"
  by (simp add: max_def)

lemma getMaxScale_value:
  assumes "previewRef e = Some p"
    and "innerWidth e \<noteq> BLEEDING" and "innerHeight e \<noteq> BLEEDING"
  shows "getMaxScale e
           = Num (max (max 3 (max 1 (naturalHeight p / (innerHeight e - BLEEDING)) * 2))
                      (max 1 (naturalWidth p / (innerWidth e - BLEEDING)) * 2))"
  using assms by (simp add: getMaxScale_def jdiv_Num)

lemma getOrignalImageSizeScale_value:
  assumes "previewRef e = Some p"
    and "innerWidth e \<noteq> BLEEDING" and "innerHeight e \<noteq> BLEEDING"
  shows "getOrignalImageSizeScale e
           = Num (if naturalHeight p / (innerHeight e - BLEEDING) < 1
                     \<and> naturalWidth p / (innerWidth e - BLEEDING) < 1 then 1
                  else max (naturalHeight p / (innerHeight e - BLEEDING))
                           (naturalWidth p / (innerWidth e - BLEEDING)))"
  using assms by (simp add: getOrignalImageSizeScale_def jdiv_Num)

lemma scenario_maxScale: "getMaxScale (scenarioEnv 1000 800) = Num (25 / 6)"
  by (simp add: getMaxScale_def scenarioEnv_def BLEEDING_def jmax_def)

lemma scenario_originalScale: "getOrignalImageSizeScale (scenarioEnv 1000 800) = Num (25 / 12)"
  by (simp add: getOrignalImageSizeScale_def scenarioEnv_def BLEEDING_def jmax_def)

lemma scenario_props:
  "onNext (props (scenarioEnv w h))" "onPrev (props (scenarioEnv w h))"
  "previewRef (scenarioEnv w h) \<noteq> None"
  by (simp_all add: scenarioEnv_def)

text \<open>
  C5.  For a natural size that is not negative and a window larger than \<open>BLEEDING\<close> in both
  directions, \<open>getMaxScale\<close> is the largest of 3, twice the height ratio and twice the width
  ratio.  In a window of 1000 by 800 with an image of natural size 2000 by 1600 the two
  doubled ratios are 4.166... and 4.132..., and one \<open>zoomIn\<close> from scale 1 and exponent 0
  gives exponent 1 and scale 1.5.
\<close>

theorem getMaxScale_formula:
  assumes "previewRef e = Some p"
    and "0 \<le> naturalWidth p" and "0 \<le> naturalHeight p"
    and "BLEEDING < innerWidth e" and "BLEEDING < innerHeight e"
  shows "getMaxScale e
           = Num (max 3 (max (2 * (naturalHeight p / (innerHeight e - BLEEDING)))
                              (2 * (naturalWidth p / (innerWidth e - BLEEDING)))))
       \<and> getMaxScale (scenarioEnv 1000 800)
           = Num (max 3 (max (2 * (1600 / 768)) (2 * (2000 / 968))))
       \<and> 4.166 \<le> 2 * (1600 / 768 :: real) \<and> 2 * (1600 / 768 :: real) < 4.167
       \<and> 4.132 \<le> 2 * (2000 / 968 :: real) \<and> 2 * (2000 / 968 :: real) < 4.133
       \<and> scaleExp (zoomIn (scenarioEnv 1000 800) (s\<lparr> scale := Num 1, scaleExp := Num 0 \<rparr>))
           = Num 1
       \<and> scale (zoomIn (scenarioEnv 1000 800) (s\<lparr> scale := Num 1, scaleExp := Num 0 \<rparr>))
           = Num 1.5"
proof -
  have general: "getMaxScale e
           = Num (max 3 (max (2 * (naturalHeight p / (innerHeight e - BLEEDING)))
                              (2 * (naturalWidth p / (innerWidth e - BLEEDING)))))"
    using assms by (simp add: getMaxScale_value max_floor_ratio)
  have m: "getMaxScale (scenarioEnv 1000 800) = Num (25 / 6)"
    by (simp add: getMaxScale_def scenarioEnv_def BLEEDING_def jmax_def)
  have z: "scaleExp (zoomIn (scenarioEnv 1000 800) (s\<lparr> scale := Num 1, scaleExp := Num 0 \<rparr>))
           = Num 1
       \<and> scale (zoomIn (scenarioEnv 1000 800) (s\<lparr> scale := Num 1, scaleExp := Num 0 \<rparr>))
           = Num 1.5"
    by (simp add: zoomIn_def m jmin_def scaleRadix_def)
  show ?thesis using general m z by simp
qed

theorem getMaxScale_formula_witness:
  "getMaxScale (scenarioEnv 1200 632) = Num (16 / 3)"
  using getMaxScale_formula [where e = "scenarioEnv 1200 632"
      and p = "the (previewRef (scenarioEnv 1200 632))"]
  by (simp add: scenarioEnv_def BLEEDING_def)

text \<open>
  C6, as stated: both ratio computations clamp the denominator to at least 1, so the result
  is finite for every window.  They do not: in a window whose height is \<open>BLEEDING\<close> the
  division is by zero and both results are \<open>Infinity\<close>.
\<close>

theorem ratio_guard_missing:
  "\<not> isFinite (getMaxScale (scenarioEnv 1000 32))
 \<and> \<not> isFinite (getOrignalImageSizeScale (scenarioEnv 1000 32))"
  by (simp add: getMaxScale_def getOrignalImageSizeScale_def scenarioEnv_def BLEEDING_def jmax_def)

text \<open>
  C6, amended.  Neither function touches the denominator.  When neither window dimension
  equals \<open>BLEEDING\<close> the divisions are by a nonzero number and both results are finite;
  \<open>getMaxScale\<close> floors each ratio, after dividing, at 1, and \<open>getOrignalImageSizeScale\<close>
  uses the ratios as they are.
\<close>

theorem ratios_finite:
  assumes "innerWidth e \<noteq> BLEEDING" and "innerHeight e \<noteq> BLEEDING"
  shows "isFinite (getMaxScale e) \<and> isFinite (getOrignalImageSizeScale e)
       \<and> (\<forall>p. previewRef e = Some p \<longrightarrow>
            getMaxScale e
              = Num (max (max 3 (max 1 (naturalHeight p / (innerHeight e - BLEEDING)) * 2))
                         (max 1 (naturalWidth p / (innerWidth e - BLEEDING)) * 2))
          \<and> getOrignalImageSizeScale e
              = Num (if naturalHeight p / (innerHeight e - BLEEDING) < 1
                        \<and> naturalWidth p / (innerWidth e - BLEEDING) < 1 then 1
                     else max (naturalHeight p / (innerHeight e - BLEEDING))
                              (naturalWidth p / (innerWidth e - BLEEDING))))"
proof (cases "previewRef e")
  case None
  then show ?thesis by (simp add: getMaxScale_def getOrignalImageSizeScale_def)
next
  case (Some p)
  from getMaxScale_value [OF Some assms] getOrignalImageSizeScale_value [OF Some assms] Some
  show ?thesis by simp
qed

theorem ratios_finite_witness:
  "isFinite (getMaxScale (scenarioEnv 16 16))
 \<and> getMaxScale (scenarioEnv 16 16) = Num 3
 \<and> getOrignalImageSizeScale (scenarioEnv 16 16) = Num 1"
  using ratios_finite [where e = "scenarioEnv 16 16"]
  by (simp add: scenarioEnv_def BLEEDING_def)

lemma getOrignalImageSizeScale_ge_one:
  assumes "BLEEDING < innerWidth e" and "BLEEDING < innerHeight e"
  shows "\<exists>a. getOrignalImageSizeScale e = Num a \<and> 1 \<le> a"
proof (cases "previewRef e")
  case None
  then show ?thesis by (simp add: getOrignalImageSizeScale_def)
next
  case (Some p)
  from assms have "innerWidth e \<noteq> BLEEDING" and "innerHeight e \<noteq> BLEEDING"
    by simp_all
  from getOrignalImageSizeScale_value [OF Some this] show ?thesis
    by (auto simp add: max_def)
qed

section \<open>Switching images\<close>

lemma switch_resets_transform:
  "scale (handleSwitchNext e s) = Num 1 \<and> scaleExp (handleSwitchNext e s) = Num 0
 \<and> rotate' (handleSwitchNext e s) = 0
 \<and> calls (handleSwitchNext e s) = calls s @ (if onNext (props e) then [CallOnNext] else [])
 \<and> scale (handleSwitchPrev e s) = Num 1 \<and> scaleExp (handleSwitchPrev e s) = Num 0
 \<and> rotate' (handleSwitchPrev e s) = 0
 \<and> calls (handleSwitchPrev e s) = calls s @ (if onPrev (props e) then [CallOnPrev] else [])"
  by (simp add: handleSwitchNext_def handleSwitchPrev_def resetScale_def invoke_def)

text \<open>
  C7.  Every switch to the previous or next image resets scale, exponent and rotation and
  calls the hook.  The toolbar actions \<open>handleSwitchPrev\<close> and \<open>handleSwitchNext\<close> do
  (\<open>switch_resets_transform\<close>); the keyboard bindings do not: \<open>ArrowLeft\<close> and \<open>ArrowRight\<close>
  only call the hook and leave scale, exponent and rotation as they were.  After \<open>zoomIn\<close>
  and \<open>rotateClockwise\<close> in the scenario, \<open>ArrowRight\<close> leaves scale 1.5, exponent 1 and
  rotation 90.
\<close>

theorem keydown_switch_keeps_transform:
  "scale (handleKeydown e ArrowRight s) = scale s
 \<and> scaleExp (handleKeydown e ArrowRight s) = scaleExp s
 \<and> rotate' (handleKeydown e ArrowRight s) = rotate' s
 \<and> scale (handleKeydown e ArrowLeft s) = scale s
 \<and> scaleExp (handleKeydown e ArrowLeft s) = scaleExp s
 \<and> rotate' (handleKeydown e ArrowLeft s) = rotate' s
 \<and> scale (handleKeydown (scenarioEnv 1000 800) ArrowRight
      (rotateClockwise (scenarioEnv 1000 800) (zoomIn (scenarioEnv 1000 800) (initial False))))
    = Num 1.5
 \<and> scaleExp (handleKeydown (scenarioEnv 1000 800) ArrowRight
      (rotateClockwise (scenarioEnv 1000 800) (zoomIn (scenarioEnv 1000 800) (initial False))))
    = Num 1
 \<and> rotate' (handleKeydown (scenarioEnv 1000 800) ArrowRight
      (rotateClockwise (scenarioEnv 1000 800) (zoomIn (scenarioEnv 1000 800) (initial False))))
    = 90
 \<and> calls (handleKeydown (scenarioEnv 1000 800) ArrowRight
      (rotateClockwise (scenarioEnv 1000 800) (zoomIn (scenarioEnv 1000 800) (initial False))))
    = [CallOnNext]"
  by (simp add: invoke_def rotateClockwise_def zoomIn_def scenario_maxScale scenario_props
      initial_def jmin_def scaleRadix_def)

section \<open>The drag session\<close>

lemma dragSteps_offset:
  assumes "offsetX s = fst pos - startX s" and "offsetY s = snd pos - startY s"
  shows "offsetX (dragSteps e evs s) = fst (pointerAfter pos evs) - startX s
       \<and> offsetY (dragSteps e evs s) = snd (pointerAfter pos evs) - startY s
       \<and> startX (dragSteps e evs s) = startX s \<and> startY (dragSteps e evs s) = startY s
       \<and> startOffsetX (dragSteps e evs s) = startOffsetX s
       \<and> startOffsetY (dragSteps e evs s) = startOffsetY s
       \<and> dragging (dragSteps e evs s) = dragging s"
  using assms
proof (induction evs arbitrary: s pos)
  case Nil
  then show ?case by simp
next
  case (Cons ev evs)
  show ?case
  proof (cases ev)
    case (MouseMove x y)
    have "offsetX (handleMouseMove x y s) = fst (x, y) - startX (handleMouseMove x y s)"
      and "offsetY (handleMouseMove x y s) = snd (x, y) - startY (handleMouseMove x y s)"
      by (simp_all add: handleMouseMove_def)
    from Cons.IH [OF this] MouseMove show ?thesis
      by (simp add: handleMouseMove_def)
  next
    case AnimationFrame
    have "offsetX (nextFrame e s) = fst pos - startX (nextFrame e s)"
      and "offsetY (nextFrame e s) = snd pos - startY (nextFrame e s)"
      using Cons.prems by (simp_all add: nextFrame_def)
    from Cons.IH [OF this] AnimationFrame show ?thesis
      by (simp add: nextFrame_def)
  qed
qed

text \<open>
  C8.  After a \<open>mousedown\<close> with the primary button and any sequence of \<open>mousemove\<close> events
  and animation frames, the offset on each axis is the pointer's current position minus
  its position at \<open>mousedown\<close> plus the offset at \<open>mousedown\<close>: nothing clamps it while the
  drag lasts.
\<close>

theorem drag_tracks_pointer:
  "offsetX (dragSteps e evs (handlePreviewMousedown e 0 downX downY s))
     = fst (pointerAfter (downX, downY) evs) - downX + offsetX s
 \<and> offsetY (dragSteps e evs (handlePreviewMousedown e 0 downX downY s))
     = snd (pointerAfter (downX, downY) evs) - downY + offsetY s
 \<and> dragging (dragSteps e evs (handlePreviewMousedown e 0 downX downY s))"
proof -
  let ?s0 = "handlePreviewMousedown e 0 downX downY s"
  have "offsetX ?s0 = fst (downX, downY) - startX ?s0"
    and "offsetY ?s0 = snd (downX, downY) - startY ?s0"
    by (simp_all add: handlePreviewMousedown_def)
  from dragSteps_offset [OF this, of e evs] show ?thesis
    by (simp add: handlePreviewMousedown_def)
qed

theorem drag_tracks_pointer_witness:
  "offsetX (dragSteps (scenarioEnv 1000 800)
      [MouseMove 510 395, AnimationFrame, MouseMove 2500 (-70)]
      (handlePreviewMousedown (scenarioEnv 1000 800) 0 500 400
         ((initial False)\<lparr> offsetX := 12, offsetY := -3 \<rparr>))) = 2012
 \<and> offsetY (dragSteps (scenarioEnv 1000 800)
      [MouseMove 510 395, AnimationFrame, MouseMove 2500 (-70)]
      (handlePreviewMousedown (scenarioEnv 1000 800) 0 500 400
         ((initial False)\<lparr> offsetX := 12, offsetY := -3 \<rparr>))) = -473"
  using drag_tracks_pointer [where e = "scenarioEnv 1000 800"
      and evs = "[MouseMove 510 395, AnimationFrame, MouseMove 2500 (-70)]"
      and downX = 500 and downY = 400 and s = "(initial False)\<lparr> offsetX := 12, offsetY := -3 \<rparr>"]
  by (simp add: initial_def)

section \<open>The floor of the scale\<close>

lemma zoomOut_fields:
  assumes "jgt (scale s) (Num 0.5)"
  shows "scaleExp (zoomOut e s) = jsub (scaleExp s) (Num 1)"
    and "scale (zoomOut e s) =
           jsub (jadd (jmax (Num 0.5) (radixPow (jsub (scaleExp s) (Num 1))))
                      (jsub (scale s) (jmax (Num 0.5) (radixPow (jsub (scaleExp s) (Num 1))))))
                (jsub (scale s) (jmax (Num 0.5) (radixPow (jsub (scaleExp s) (Num 1)))))"
  using assms by (simp_all add: zoomOut_def Let_def)

lemma zoomIn_fields:
  assumes "jlt (scale s) (getMaxScale e)"
  shows "scaleExp (zoomIn e s) = jadd (scaleExp s) (Num 1)"
    and "scale (zoomIn e s) = jmin (getMaxScale e) (radixPow (jadd (scaleExp s) (Num 1)))"
  using assms by (simp_all add: zoomIn_def Let_def)

lemma handlePreviewDblclick_fields:
  "scaleExp (handlePreviewDblclick e s) = scaleExp s"
  "scale (handlePreviewDblclick e s) =
     (if jeq (scale s) (getOrignalImageSizeScale e) then Num 1 else getOrignalImageSizeScale e)"
  by (simp_all add: handlePreviewDblclick_def Let_def)

text \<open>
  C9.  With a window larger than \<open>BLEEDING\<close>, the scale is at least 0.5 after every
  operation.  \<open>zoomOut\<close> keeps the floor and the original-size scale
  is at least 1 (\<open>getOrignalImageSizeScale_ge_one\<close>), but \<open>zoomIn\<close> does not only raise the
  scale: the double click sets the scale and leaves the exponent where \<open>zoomOut\<close> put it,
  and \<open>zoomIn\<close> then computes the scale from that exponent.  From the initial state, two
  \<open>zoomOut\<close>, a double click, a \<open>zoomOut\<close>, a double click and a \<open>zoomIn\<close> leave the scale at
  4/9.
\<close>

theorem zoomIn_below_floor:
  "scale (zoomIn (scenarioEnv 1000 800)
     (handlePreviewDblclick (scenarioEnv 1000 800)
       (zoomOut (scenarioEnv 1000 800)
         (handlePreviewDblclick (scenarioEnv 1000 800)
           (zoomOut (scenarioEnv 1000 800)
             (zoomOut (scenarioEnv 1000 800) (initial False))))))) = Num (4 / 9)
 \<and> jlt (Num (4 / 9)) (Num 0.5)
 \<and> BLEEDING < innerWidth (scenarioEnv 1000 800)
 \<and> BLEEDING < innerHeight (scenarioEnv 1000 800)"
proof -
  let ?E = "scenarioEnv 1000 800"
  define s1 where "s1 = zoomOut ?E (initial False)"
  define s2 where "s2 = zoomOut ?E s1"
  define s3 where "s3 = handlePreviewDblclick ?E s2"
  define s4 where "s4 = zoomOut ?E s3"
  define s5 where "s5 = handlePreviewDblclick ?E s4"
  define s6 where "s6 = zoomIn ?E s5"
  note pw = radixPow_values
  have 1: "scale s1 = Num (2/3) \<and> scaleExp s1 = Num (-1)"
    unfolding s1_def
    by (subst zoomOut_fields, simp add: initial_def jgt_def)+
       (simp add: initial_def jsub_def jmax_def pw del: radixPow.simps)
  have 2: "scale s2 = Num (1/2) \<and> scaleExp s2 = Num (-2)"
    unfolding s2_def
    by (subst zoomOut_fields, simp add: 1 jgt_def)+ (simp add: 1 jsub_def jmax_def pw del: radixPow.simps)
  have 3: "scale s3 = Num (25/12) \<and> scaleExp s3 = Num (-2)"
    unfolding s3_def
    by (simp add: handlePreviewDblclick_fields 2 scenario_originalScale jeq_def)
  have 4: "scale s4 = Num (1/2) \<and> scaleExp s4 = Num (-3)"
    unfolding s4_def
    by (subst zoomOut_fields, simp add: 3 jgt_def)+ (simp add: 3 jsub_def jmax_def pw del: radixPow.simps)
  have 5: "scale s5 = Num (25/12) \<and> scaleExp s5 = Num (-2 - 1)"
    unfolding s5_def
    by (simp add: handlePreviewDblclick_fields 4 scenario_originalScale jeq_def)
  have 6: "scale s6 = Num (4/9)"
    unfolding s6_def
    by (subst zoomIn_fields, simp add: 5 scenario_maxScale)
       (simp add: 5 scenario_maxScale jmin_def pw del: radixPow.simps)
  have "BLEEDING < innerWidth ?E \<and> BLEEDING < innerHeight ?E"
    by (simp add: scenarioEnv_def BLEEDING_def)
  with 6 show ?thesis
    unfolding s6_def s5_def s4_def s3_def s2_def s1_def by simp
qed

section \<open>The clamp without a hint\<close>

lemma zoomOut_offset:
  assumes "jgt (scale s) (Num 0.5)"
  shows "offsetX (zoomOut e s)
           = derivedOffset.offsetX
               (getDerivedOffset (pbox e (zoomOutCandidate e s)) (innerWidth e) (innerHeight e)
                  (startOffsetX s) (startOffsetY s) None)"
    and "offsetY (zoomOut e s)
           = derivedOffset.offsetY
               (getDerivedOffset (pbox e (zoomOutCandidate e s)) (innerWidth e) (innerHeight e)
                  (startOffsetX s) (startOffsetY s) None)"
  using assms by (simp_all add: zoomOut_def zoomOutCandidate_def Let_def)

text \<open>
  C10.  Without a direction hint, on an axis where the box spans the viewport, the clamp
  takes the branch of \<open>horizontalLeft\<close> (\<open>verticalTop\<close>) with delta 0: the corrected offset
  is the maximum of minus half the overflow and the start offset.  \<open>zoomOut\<close> calls the clamp
  so, on the box measured at the candidate scale, and the start offset it uses is the one
  the last \<open>mousedown\<close> stored, not the current offset; \<open>zoomOut\<close> does not refresh it.
\<close>

theorem no_hint_clamps_start_offset:
  "(iw < width b \<and> left b \<le> 0 \<and> iw \<le> right b \<longrightarrow>
      derivedOffset.offsetX (getDerivedOffset (Some b) iw ih sx sy None)
        = max (- ((width b - iw) / 2)) sx
    \<and> derivedOffset.offsetX (getDerivedOffset (Some b) iw ih sx sy None)
        = derivedOffset.offsetX (getDerivedOffset (Some b) iw ih sx sy
            (Some (m\<lparr> moveHorizontalDirection := horizontalLeft, deltaHorizontal := 0 \<rparr>))))
 \<and> (ih < height b \<and> top' b \<le> 0 \<and> ih \<le> bottom b \<longrightarrow>
      derivedOffset.offsetY (getDerivedOffset (Some b) iw ih sx sy None)
        = max (- ((height b - ih) / 2)) sy
    \<and> derivedOffset.offsetY (getDerivedOffset (Some b) iw ih sx sy None)
        = derivedOffset.offsetY (getDerivedOffset (Some b) iw ih sx sy
            (Some (m\<lparr> moveVerticalDirection := verticalTop, deltaVertical := 0 \<rparr>))))
 \<and> (jgt (scale s) (Num 0.5) \<and> pbox e (zoomOutCandidate e s) = Some b
      \<and> innerWidth e < width b \<and> left b \<le> 0 \<and> innerWidth e \<le> right b \<longrightarrow>
      offsetX (zoomOut e s) = max (- ((width b - innerWidth e) / 2)) (startOffsetX s))
 \<and> (jgt (scale s) (Num 0.5) \<and> pbox e (zoomOutCandidate e s) = Some b
      \<and> innerHeight e < height b \<and> top' b \<le> 0 \<and> innerHeight e \<le> bottom b \<longrightarrow>
      offsetY (zoomOut e s) = max (- ((height b - innerHeight e) / 2)) (startOffsetY s))
 \<and> startOffsetX (handlePreviewMousedown e 0 clientX clientY s) = offsetX s
 \<and> startOffsetY (handlePreviewMousedown e 0 clientX clientY s) = offsetY s
 \<and> startOffsetX (zoomOut e s) = startOffsetX s
 \<and> startOffsetY (zoomOut e s) = startOffsetY s"
proof -
  have clamp: "(iw < width b \<and> left b \<le> 0 \<and> iw \<le> right b \<longrightarrow>
      derivedOffset.offsetX (getDerivedOffset (Some b) iw ih sx sy None)
        = max (- ((width b - iw) / 2)) sx
    \<and> derivedOffset.offsetX (getDerivedOffset (Some b) iw ih sx sy None)
        = derivedOffset.offsetX (getDerivedOffset (Some b) iw ih sx sy
            (Some (m\<lparr> moveHorizontalDirection := horizontalLeft, deltaHorizontal := 0 \<rparr>))))
    \<and> (ih < height b \<and> top' b \<le> 0 \<and> ih \<le> bottom b \<longrightarrow>
      derivedOffset.offsetY (getDerivedOffset (Some b) iw ih sx sy None)
        = max (- ((height b - ih) / 2)) sy
    \<and> derivedOffset.offsetY (getDerivedOffset (Some b) iw ih sx sy None)
        = derivedOffset.offsetY (getDerivedOffset (Some b) iw ih sx sy
            (Some (m\<lparr> moveVerticalDirection := verticalTop, deltaVertical := 0 \<rparr>))))"
    by (simp add: getDerivedOffset_def nextOffsetX_def nextOffsetY_def)
  have zx: "jgt (scale s) (Num 0.5) \<and> pbox e (zoomOutCandidate e s) = Some b
      \<and> innerWidth e < width b \<and> left b \<le> 0 \<and> innerWidth e \<le> right b \<longrightarrow>
      offsetX (zoomOut e s) = max (- ((width b - innerWidth e) / 2)) (startOffsetX s)"
    by (simp add: zoomOut_offset getDerivedOffset_def nextOffsetX_def)
  have zy: "jgt (scale s) (Num 0.5) \<and> pbox e (zoomOutCandidate e s) = Some b
      \<and> innerHeight e < height b \<and> top' b \<le> 0 \<and> innerHeight e \<le> bottom b \<longrightarrow>
      offsetY (zoomOut e s) = max (- ((height b - innerHeight e) / 2)) (startOffsetY s)"
    by (simp add: zoomOut_offset getDerivedOffset_def nextOffsetY_def)
  have st: "startOffsetX (handlePreviewMousedown e 0 clientX clientY s) = offsetX s
      \<and> startOffsetY (handlePreviewMousedown e 0 clientX clientY s) = offsetY s
      \<and> startOffsetX (zoomOut e s) = startOffsetX s
      \<and> startOffsetY (zoomOut e s) = startOffsetY s"
    by (simp add: handlePreviewMousedown_def zoomOut_def Let_def)
  from clamp zx zy st show ?thesis by blast
qed

theorem no_hint_clamps_start_offset_witness:
  "offsetX (zoomOut wideBoxEnv
      ((initial False)\<lparr> scale := Num 1.5, scaleExp := Num 1, offsetX := 40, offsetY := 5,
                        startOffsetX := 300, startOffsetY := -70 \<rparr>)) = 300
 \<and> offsetY (zoomOut wideBoxEnv
      ((initial False)\<lparr> scale := Num 1.5, scaleExp := Num 1, offsetX := 40, offsetY := 5,
                        startOffsetX := 300, startOffsetY := -70 \<rparr>)) = -50
 \<and> getDerivedOffset
      (Some \<lparr> left = -100, top' = -50, right = 1100, bottom = 850,
              width = 1200, height = 900 \<rparr>) 1000 800 300 (-70) None
    = \<lparr> derivedOffset.offsetX = 300, derivedOffset.offsetY = -50 \<rparr>"
  using no_hint_clamps_start_offset
    [where e = wideBoxEnv
       and s = "(initial False)\<lparr> scale := Num 1.5, scaleExp := Num 1, offsetX := 40,
                                 offsetY := 5, startOffsetX := 300, startOffsetY := -70 \<rparr>"
       and b = "\<lparr> left = -100, top' = -50, right = 1100, bottom = 850,
                  width = 1200, height = 900 \<rparr>"
       and iw = 1000 and ih = 800 and sx = 300 and sy = "-70"]
  by (simp add: pbox_def wideBoxEnv_def initial_def jgt_def zoomOutCandidate_def
      derivePreviewStyle_def getDerivedOffset_def)

section \<open>Re-applying the clamp\<close>

text \<open>
  For the box of an image centred in the viewport and moved by the offset: when the clamp
  is fed the offset at which the box was measured (start offset minus delta is that
  offset, as on \<open>mouseup\<close>), its result is a fixed point, whatever the hint.
\<close>

lemma nextOffsetX_fixed:
  assumes "right b = left b + width b"
    and "left b = (iw - width b) / 2 + ox"
    and "sx - (case ms of None \<Rightarrow> 0 | Some m \<Rightarrow> deltaHorizontal m) = ox"
  shows "nextOffsetX (translateRect (nextOffsetX b iw sx ms - ox) dy b) iw
           (nextOffsetX b iw sx ms + (case ms of None \<Rightarrow> 0 | Some m \<Rightarrow> deltaHorizontal m)) ms
           = nextOffsetX b iw sx ms"
  using assms
  by (auto simp add: nextOffsetX_def translateRect_def field_simps split: option.splits)

lemma nextOffsetY_fixed:
  assumes "bottom b = top' b + height b"
    and "top' b = (ih - height b) / 2 + oy"
    and "sy - (case ms of None \<Rightarrow> 0 | Some m \<Rightarrow> deltaVertical m) = oy"
  shows "nextOffsetY (translateRect dx (nextOffsetY b ih sy ms - oy) b) ih
           (nextOffsetY b ih sy ms + (case ms of None \<Rightarrow> 0 | Some m \<Rightarrow> deltaVertical m)) ms
           = nextOffsetY b ih sy ms"
  using assms
  by (auto simp add: nextOffsetY_def translateRect_def field_simps split: option.splits)

lemma clamp_fixed_point_fresh:
  assumes "right b = left b + width b"
    and "bottom b = top' b + height b"
    and "left b = (iw - width b) / 2 + ox"
    and "top' b = (ih - height b) / 2 + oy"
    and "sx - (case ms of None \<Rightarrow> 0 | Some m \<Rightarrow> deltaHorizontal m) = ox"
    and "sy - (case ms of None \<Rightarrow> 0 | Some m \<Rightarrow> deltaVertical m) = oy"
  shows "clampFixedPoint b iw ih sx sy ms ox oy"
proof -
  have "nextOffsetX (translateRect (nextOffsetX b iw sx ms - ox)
            (nextOffsetY b ih sy ms - oy) b) iw
          (nextOffsetX b iw sx ms + (case ms of None \<Rightarrow> 0 | Some m \<Rightarrow> deltaHorizontal m)) ms
          = nextOffsetX b iw sx ms"
    using assms(1,3,5) by (rule nextOffsetX_fixed)
  moreover have "nextOffsetY (translateRect (nextOffsetX b iw sx ms - ox)
            (nextOffsetY b ih sy ms - oy) b) ih
          (nextOffsetY b ih sy ms + (case ms of None \<Rightarrow> 0 | Some m \<Rightarrow> deltaVertical m)) ms
          = nextOffsetY b ih sy ms"
    using assms(2,4,6) by (rule nextOffsetY_fixed)
  ultimately show ?thesis
    by (simp add: clampFixedPoint_def getDerivedOffset_def)
qed

lemma centred_maxScale: "getMaxScale centredEnv = Num (600 / 121)"
  by (simp add: getMaxScale_def centredEnv_def BLEEDING_def jmax_def)

lemma centred_preview:
  "previewRef centredEnv =
     Some \<lparr> naturalWidth = 2400, naturalHeight = 1600, getBoundingClientRect = centredRect \<rparr>"
  "innerWidth centredEnv = 1000" "innerHeight centredEnv = 800"
  by (simp_all add: centredEnv_def)

lemma staleDragState_value:
  "staleDragState =
     \<lparr> startX = 500, startY = 400, offsetX = 0, offsetY = 0,
       startOffsetX = 300, startOffsetY = 0,
       mouseDownClientX = 800, mouseDownClientY = 400, dragging = False,
       scaleExp = Num 1, scale = Num 1.5, rotate' = 0,
       cssText = Some \<lparr> translateX = 0, translateY = 0, rotateDeg = 0,
                        scaleFactor = Num 1.5, cursorGrabbing = False,
                        transitionNone = False \<rparr>,
       uncontrolledShow = False, displayed = False, mouseListeners = False,
       framePending = False, calls = [] \<rparr>"
  by (simp add: staleDragState_def initial_def zoomIn_def centred_maxScale jmin_def scaleRadix_def
      handlePreviewMousedown_def handleMouseMove_def nextFrame_def handleMouseUp_def
      derivePreviewStyle_def centred_preview pbox_def centredRect_def getMoveStrategy_def
      getDerivedOffset_def nextOffsetX_def nextOffsetY_def Let_def)


text \<open>
  C3.  The clamp is idempotent: committing the corrected offset, measuring the box again
  and clamping again returns the same offset.  This holds when the clamp is fed the offset
  the box was measured at (\<open>clamp_fixed_point_fresh\<close>).  \<open>zoomOut\<close> feeds it the start offset
  of the last drag instead.  After the two drags of \<open>staleDragState\<close> the offset is 0 and
  the start offset 300; \<open>zoomOut\<close> measures a box of width 1200 that spans the window of
  width 1000 and commits 300, which opens a gap of 200 on the left; on the box measured
  again the clamp returns 100.
\<close>

theorem zoomOut_clamp_not_fixed:
  "offsetX staleDragState = 0 \<and> startOffsetX staleDragState = 300
 \<and> pbox centredEnv (zoomOutCandidate centredEnv staleDragState)
     = Some \<lparr> left = -100, top' = 0, right = 1100, bottom = 800, width = 1200, height = 800 \<rparr>
 \<and> offsetX (zoomOut centredEnv staleDragState) = 300
 \<and> offsetY (zoomOut centredEnv staleDragState) = 0
 \<and> scale (zoomOut centredEnv staleDragState) = Num 1
 \<and> pbox centredEnv (zoomOut centredEnv staleDragState)
     = Some \<lparr> left = 200, top' = 0, right = 1400, bottom = 800, width = 1200, height = 800 \<rparr>
 \<and> getDerivedOffset (pbox centredEnv (zoomOut centredEnv staleDragState)) 1000 800
       (offsetX (zoomOut centredEnv staleDragState))
       (offsetY (zoomOut centredEnv staleDragState)) None
     = \<lparr> derivedOffset.offsetX = 100, derivedOffset.offsetY = 0 \<rparr>
 \<and> \<not> clampFixedPoint
       \<lparr> left = -100, top' = 0, right = 1100, bottom = 800, width = 1200, height = 800 \<rparr>
       1000 800 (startOffsetX staleDragState) (startOffsetY staleDragState) None
       (offsetX staleDragState) (offsetY staleDragState)"
  by (simp add: staleDragState_value zoomOut_def zoomOutCandidate_def Let_def jgt_def jsub_def
      jmax_def scaleRadix_def derivePreviewStyle_def centred_preview pbox_def centredRect_def
      getDerivedOffset_def nextOffsetX_def nextOffsetY_def clampFixedPoint_def translateRect_def)

end
